theory Spec2Isabelle
  imports Complex_Main "HOL-Library.Char_ord" "HOL-Library.List_Lexorder" "HOL-Library.AList"
begin

section \<open>Values and errors shared by the scripts\<close>

text \<open>
  The contact maps are what \<^verbatim>\<open>json.load\<close> returns: \<^verbatim>\<open>None\<close>, booleans, numbers, strings,
  lists and dictionaries with string keys. A dictionary is an association list in
  insertion order (the order of \<^verbatim>\<open>.items()\<close>) and is read with \<open>map_of\<close>.
  Python floats are modelled by exact reals: rounding, NaN and infinities are outside
  the model. Strings are compared bytewise, lexicographically, as Python compares
  \<^verbatim>\<open>str\<close> values by code point.
\<close>

datatype json =
    JNull
  | JBool bool
  | JNum real
  | JStr string
  | JList "json list"
  | JObj "(string \<times> json) list"

text \<open>The exceptions the two parsers can raise; neither parser has a handler.\<close>

datatype py_error = AttributeError | TypeError | ValueError

text \<open>\<^verbatim>\<open>d.get(key, default)\<close>\<close>

definition dict_get :: "(string \<times> json) list \<Rightarrow> string \<Rightarrow> json \<Rightarrow> json" where
  "dict_get d k dflt = (case map_of d k of None \<Rightarrow> dflt | Some v \<Rightarrow> v)"

text \<open>\<^verbatim>\<open>s.strip(c)\<close> for a single character, and \<^verbatim>\<open>s.split(c)\<close>.\<close>

definition strip_char :: "char \<Rightarrow> string \<Rightarrow> string" where
  "strip_char c s = rev (dropWhile (\<lambda>x. x = c) (rev (dropWhile (\<lambda>x. x = c) s)))"

fun split_on :: "char \<Rightarrow> string \<Rightarrow> string list" where
  "split_on c [] = [[]]"
| "split_on c (x # xs) =
     (if x = c then [] # split_on c xs
      else (case split_on c xs of p # ps \<Rightarrow> (x # p) # ps | [] \<Rightarrow> [[x]]))"

text \<open>\<^verbatim>\<open>atom_key.strip('/').split('/')\<close>\<close>

definition atom_path :: "string \<Rightarrow> string list" where
  "atom_path atom_key = split_on CHR ''/'' (strip_char CHR ''/'' atom_key)"

text \<open>\<^verbatim>\<open>f"{chain}:{resname}{resnum}"\<close>\<close>

definition residue_id :: "string \<Rightarrow> string \<Rightarrow> string \<Rightarrow> string" where
  "residue_id chain resname resnum = chain @ '':'' @ resname @ resnum"

text \<open>\<^verbatim>\<open>tuple(sorted([res1, res2]))\<close>: the sort is stable, so the order changes only when
  the second string is strictly smaller.\<close>

definition sorted_pair :: "string \<Rightarrow> string \<Rightarrow> string \<times> string" where
  "sorted_pair res1 res2 = (if res2 < res1 then (res2, res1) else (res1, res2))"

text \<open>
  A \<^verbatim>\<open>for\<close> loop whose body updates a state and may raise: the first exception ends
  the loop. A \<^verbatim>\<open>continue\<close> is a body that returns the state unchanged.
\<close>

fun for_each :: "('a \<Rightarrow> 's \<Rightarrow> 'e + 's) \<Rightarrow> 'a list \<Rightarrow> 's \<Rightarrow> 'e + 's" where
  "for_each body [] st = Inr st"
| "for_each body (x # xs) st =
     (case body x st of Inl e \<Rightarrow> Inl e | Inr st' \<Rightarrow> for_each body xs st')"

text \<open>
  Dictionary keys: lists and dictionaries are unhashable (\<^verbatim>\<open>TypeError\<close>), and
  \<^verbatim>\<open>True == 1\<close>, \<^verbatim>\<open>False == 0\<close> as keys. \<^verbatim>\<open>counter[key] += 1\<close> keeps the key that
  was inserted first and appends a new key at the end.
\<close>

fun hashable :: "json \<Rightarrow> bool" where
  "hashable (JList xs) = False"
| "hashable (JObj fs) = False"
| "hashable j = True"

fun key_norm :: "json \<Rightarrow> json" where
  "key_norm (JBool b) = JNum (if b then 1 else 0)"
| "key_norm j = j"

fun counter_incr :: "json \<Rightarrow> (json \<times> nat) list \<Rightarrow> (json \<times> nat) list" where
  "counter_incr k [] = [(k, 1)]"
| "counter_incr k ((k', n) # kvs) =
     (if key_norm k' = key_norm k then (k', n + 1) # kvs else (k', n) # counter_incr k kvs)"

section \<open>\<^verbatim>\<open>06_compare_structures.py\<close>: \<^verbatim>\<open>parse_arpeggio_interactions\<close>\<close>

text \<open>An interaction tuple \<^verbatim>\<open>(res1, res2, itype)\<close>; the state of the loops is the list
  \<^verbatim>\<open>interactions\<close> and the counter \<^verbatim>\<open>interaction_types\<close>.\<close>

type_synonym parse_state = "(string \<times> string \<times> json) list \<times> (json \<times> nat) list"

definition contact_body :: "string \<Rightarrow> json \<Rightarrow> parse_state \<Rightarrow> py_error + parse_state" where
  "contact_body res1 contact st =
     (case contact of
        JObj cfields \<Rightarrow>
          (case dict_get cfields ''bgn_atom'' (JStr []) of
             JStr bgn_atom \<Rightarrow>
               (case atom_path bgn_atom of
                  chain2 # resnum2 # resname2 # atomname2 # extra \<Rightarrow>
                    (let itype = dict_get cfields ''type'' (JStr ''unknown'');
                         res2 = residue_id chain2 resname2 resnum2;
                         interaction = (fst (sorted_pair res1 res2), snd (sorted_pair res1 res2), itype)
                     in if hashable itype
                        then Inr (fst st @ [interaction], counter_incr itype (snd st))
                        else Inl TypeError)
                | short \<Rightarrow> Inr st)
           | other \<Rightarrow> Inl AttributeError)
      | other \<Rightarrow> Inr st)"

definition atom_body :: "string \<times> json \<Rightarrow> parse_state \<Rightarrow> py_error + parse_state" where
  "atom_body item st =
     (case snd item of
        JObj atom_data \<Rightarrow>
          (case map_of atom_data ''contact'' of
             None \<Rightarrow> Inr st
           | Some contacts \<Rightarrow>
               (case atom_path (fst item) of
                  chain1 # resnum1 # resname1 # atomname1 # extra \<Rightarrow>
                    for_each (contact_body (residue_id chain1 resname1 resnum1))
                      (case contacts of JList cs \<Rightarrow> cs | single \<Rightarrow> [single]) st
                | short \<Rightarrow> Inr st))
      | other \<Rightarrow> Inr st)"

text \<open>The argument is the value \<^verbatim>\<open>json.load\<close> returned; \<^verbatim>\<open>data.items()\<close> exists only
  for a dictionary.\<close>

definition parse_arpeggio_interactions :: "json \<Rightarrow> py_error + parse_state" where
  "parse_arpeggio_interactions data =
     (case data of
        JObj items \<Rightarrow> for_each atom_body items ([], [])
      | other \<Rightarrow> Inl AttributeError)"

section \<open>\<^verbatim>\<open>04_analyze_interactions.py\<close>: \<^verbatim>\<open>extract_interactions\<close>\<close>

record interaction_rec =
  chain1 :: string
  resnum1 :: string
  resname1 :: string
  atom1 :: string
  chain2 :: string
  resnum2 :: string
  resname2 :: string
  atom2 :: string
  interaction_type :: json
  distance :: real

text \<open>Truth value of a JSON value, and \<^verbatim>\<open>float(v)\<close>. What \<^verbatim>\<open>float\<close> makes of a string is
  Python's own number syntax and is a parameter: \<open>None\<close> is its \<^verbatim>\<open>ValueError\<close>.\<close>

fun truthy :: "json \<Rightarrow> bool" where
  "truthy JNull = False"
| "truthy (JBool b) = b"
| "truthy (JNum x) = (x \<noteq> 0)"
| "truthy (JStr s) = (s \<noteq> [])"
| "truthy (JList xs) = (xs \<noteq> [])"
| "truthy (JObj fs) = (fs \<noteq> [])"

fun py_float :: "(string \<Rightarrow> real option) \<Rightarrow> json \<Rightarrow> py_error + real" where
  "py_float float_of_str (JNum x) = Inr x"
| "py_float float_of_str (JBool b) = Inr (if b then 1 else 0)"
| "py_float float_of_str (JStr s) =
     (case float_of_str s of None \<Rightarrow> Inl ValueError | Some x \<Rightarrow> Inr x)"
| "py_float float_of_str j = Inl TypeError"

text \<open>\<^verbatim>\<open>float(distance) if distance else 0.0\<close>\<close>

definition coerce_distance :: "(string \<Rightarrow> real option) \<Rightarrow> json \<Rightarrow> py_error + real" where
  "coerce_distance float_of_str d = (if truthy d then py_float float_of_str d else Inr 0)"

definition extract_contact_body ::
  "(string \<Rightarrow> real option) \<Rightarrow> string \<times> string \<times> string \<times> string \<Rightarrow> json
     \<Rightarrow> interaction_rec list \<Rightarrow> py_error + interaction_rec list" where
  "extract_contact_body float_of_str src contact interactions =
     (case contact of
        JObj cfields \<Rightarrow>
          (case dict_get cfields ''bgn_atom'' (JStr []) of
             JStr bgn_atom \<Rightarrow>
               (case atom_path bgn_atom of
                  c2 # n2 # r2 # a2 # extra \<Rightarrow>
                    (case coerce_distance float_of_str (dict_get cfields ''distance'' (JNum 0)) of
                       Inl e \<Rightarrow> Inl e
                     | Inr d \<Rightarrow>
                         Inr (interactions @
                           [\<lparr>chain1 = fst src, resnum1 = fst (snd src),
                             resname1 = fst (snd (snd src)), atom1 = snd (snd (snd src)),
                             chain2 = c2, resnum2 = n2, resname2 = r2, atom2 = a2,
                             interaction_type = dict_get cfields ''type'' (JStr ''unknown''),
                             distance = d\<rparr>]))
                | short \<Rightarrow> Inr interactions)
           | other \<Rightarrow> Inl AttributeError)
      | other \<Rightarrow> Inr interactions)"

definition extract_atom_body ::
  "(string \<Rightarrow> real option) \<Rightarrow> string \<times> json \<Rightarrow> interaction_rec list
     \<Rightarrow> py_error + interaction_rec list" where
  "extract_atom_body float_of_str item interactions =
     (case snd item of
        JObj atom_data \<Rightarrow>
          (case atom_path (fst item) of
             c1 # n1 # r1 # a1 # extra \<Rightarrow>
               (case map_of atom_data ''contact'' of
                  None \<Rightarrow> Inr interactions
                | Some contacts \<Rightarrow>
                    for_each (extract_contact_body float_of_str (c1, n1, r1, a1))
                      (case contacts of JList cs \<Rightarrow> cs | single \<Rightarrow> [single]) interactions)
           | short \<Rightarrow> Inr interactions)
      | other \<Rightarrow> Inr interactions)"

definition extract_interactions ::
  "(string \<Rightarrow> real option) \<Rightarrow> json \<Rightarrow> py_error + interaction_rec list" where
  "extract_interactions float_of_str arpeggio_data =
     (case arpeggio_data of
        JObj items \<Rightarrow> for_each (extract_atom_body float_of_str) items []
      | other \<Rightarrow> Inl AttributeError)"

section \<open>\<^verbatim>\<open>04_analyze_interactions.py\<close>: \<^verbatim>\<open>analyze_interactions\<close>\<close>






text \<open>The key of \<^verbatim>\<open>residue_pair_counts\<close> for one record.\<close>

definition residue_pair_key :: "interaction_rec \<Rightarrow> string \<times> string" where
  "residue_pair_key irec =
     sorted_pair (residue_id (chain1 irec) (resname1 irec) (resnum1 irec))
                 (residue_id (chain2 irec) (resname2 irec) (resnum2 irec))"







section \<open>\<^verbatim>\<open>06_compare_structures.py\<close>: \<^verbatim>\<open>calculate_rmsd\<close>\<close>

text \<open>
  BioPython is outside the repository. What the function uses of it are parameters:
  \<^verbatim>\<open>parser.get_structure\<close>, from a path to a structure or an exception, and
  \<^verbatim>\<open>Superimposer().set_atoms(fixed, moving)\<close> followed by \<^verbatim>\<open>.rms\<close>, from two atom lists to
  the deviation or an exception. An exception carries the text \<^verbatim>\<open>str(e)\<close>. A structure
  is its models, a model its chains, a chain its residues; \<open>is_aa\<close> is the answer of
  \<^verbatim>\<open>PDB.is_aa(residue)\<close>.
\<close>

datatype lib_exn = LibException string

fun str_of :: "lib_exn \<Rightarrow> string" where
  "str_of (LibException msg) = msg"

record atom =
  atom_name :: string
  coord :: "real \<times> real \<times> real"

record residue =
  is_aa :: bool
  atoms :: "atom list"

type_synonym pdb_structure = "residue list list list"

record rmsd_result =
  rmsd :: real
  n_atoms :: nat
  atom_type :: "string option"
  error :: "string option"

text \<open>The body of the innermost extraction loop: \<^verbatim>\<open>'CA' in residue\<close> and
  \<^verbatim>\<open>residue['CA']\<close> look the atom up by name.\<close>

definition residue_atoms :: "string \<Rightarrow> residue \<Rightarrow> atom list" where
  "residue_atoms atype r =
     (if is_aa r then
        (case (if atype = ''CA'' then find (\<lambda>a. atom_name a = ''CA'') (atoms r) else None) of
           Some ca \<Rightarrow> [ca]
         | None \<Rightarrow> if atype = ''all'' then atoms r else [])
      else [])"

definition extract_atoms :: "string \<Rightarrow> pdb_structure \<Rightarrow> atom list" where
  "extract_atoms atype struct =
     concat (map (\<lambda>model. concat (map (\<lambda>chain. concat (map (residue_atoms atype) chain)) model)) struct)"

text \<open>Lines 100 to 117: match the number of atoms, then superimpose.\<close>

definition match_and_superimpose ::
  "(atom list \<Rightarrow> atom list \<Rightarrow> lib_exn + real) \<Rightarrow> string \<Rightarrow> atom list \<Rightarrow> atom list
     \<Rightarrow> lib_exn + rmsd_result" where
  "match_and_superimpose set_atoms_rms atype pred_atoms exp_atoms =
     (if min (length pred_atoms) (length exp_atoms) = 0
      then Inr \<lparr>rmsd = 0, n_atoms = 0, atom_type = None, error = Some ''No matching atoms''\<rparr>
      else (case set_atoms_rms (take (min (length pred_atoms) (length exp_atoms)) exp_atoms)
                               (take (min (length pred_atoms) (length exp_atoms)) pred_atoms) of
              Inl e \<Rightarrow> Inl e
            | Inr rms \<Rightarrow>
                Inr \<lparr>rmsd = rms, n_atoms = min (length pred_atoms) (length exp_atoms),
                     atom_type = Some atype, error = None\<rparr>))"

text \<open>The \<^verbatim>\<open>try\<close> block: \<open>Inl\<close> is an exception raised inside it.\<close>

definition calculate_rmsd_try ::
  "(string \<Rightarrow> lib_exn + pdb_structure) \<Rightarrow> (atom list \<Rightarrow> atom list \<Rightarrow> lib_exn + real)
     \<Rightarrow> string \<Rightarrow> string \<Rightarrow> string \<Rightarrow> lib_exn + rmsd_result" where
  "calculate_rmsd_try get_structure set_atoms_rms predicted_pdb experimental_pdb atype =
     (case get_structure predicted_pdb of
        Inl e \<Rightarrow> Inl e
      | Inr pred_structure \<Rightarrow>
          (case get_structure experimental_pdb of
             Inl e \<Rightarrow> Inl e
           | Inr exp_structure \<Rightarrow>
               match_and_superimpose set_atoms_rms atype
                 (extract_atoms atype pred_structure) (extract_atoms atype exp_structure)))"

text \<open>The whole function: the availability guard, then the \<^verbatim>\<open>try\<close> block with its
  \<^verbatim>\<open>except Exception\<close> handler. \<open>Inl\<close> would be an exception that reaches the caller.\<close>

definition calculate_rmsd ::
  "bool \<Rightarrow> (string \<Rightarrow> lib_exn + pdb_structure) \<Rightarrow> (atom list \<Rightarrow> atom list \<Rightarrow> lib_exn + real)
     \<Rightarrow> string \<Rightarrow> string \<Rightarrow> string \<Rightarrow> lib_exn + rmsd_result" where
  "calculate_rmsd BIOPYTHON_AVAILABLE get_structure set_atoms_rms predicted_pdb experimental_pdb atype =
     (if \<not> BIOPYTHON_AVAILABLE
      then Inr \<lparr>rmsd = 0, n_atoms = 0, atom_type = None, error = Some ''BioPython not available''\<rparr>
      else (case calculate_rmsd_try get_structure set_atoms_rms predicted_pdb experimental_pdb atype of
              Inl e \<Rightarrow> Inr \<lparr>rmsd = 0, n_atoms = 0, atom_type = None, error = Some (str_of e)\<rparr>
            | Inr result \<Rightarrow> Inr result))"

section \<open>\<^verbatim>\<open>06_compare_structures.py\<close>: \<^verbatim>\<open>compare_interactions\<close>\<close>

text \<open>
  The function takes lists of tuples \<^verbatim>\<open>(res1, res2, itype)\<close> and reads \<^verbatim>\<open>interaction[2]\<close>.
  The type tag is a type parameter compared by equality, as Python compares strings.
  A Python \<^verbatim>\<open>set\<close> is a HOL set, \<^verbatim>\<open>len\<close> of it is \<open>card\<close>.
\<close>

definition itype_of :: "string \<times> string \<times> 't \<Rightarrow> 't" where
  "itype_of interaction = snd (snd interaction)"

record overall_metrics =
  predicted_total :: nat
  experimental_total :: nat
  true_positives :: nat
  false_positives :: nat
  false_negatives :: nat
  precision :: real
  recall :: real
  f1_score :: real

record type_metrics =
  predicted :: nat
  experimental :: nat
  tp :: nat
  fp :: nat
  fn :: nat
  type_precision :: real
  type_recall :: real
  f1 :: real

record 't comparison =
  overall :: overall_metrics
  by_type :: "'t \<Rightarrow> type_metrics option"

text \<open>The two grouping loops: \<^verbatim>\<open>by_type[itype]\<close> is created empty when the key is new,
  then the tuple is added to it. The dictionary keeps its keys in insertion order.\<close>

fun group_by_type ::
  "(string \<times> string \<times> 't) list \<Rightarrow> ('t \<times> (string \<times> string \<times> 't) set) list
     \<Rightarrow> ('t \<times> (string \<times> string \<times> 't) set) list" where
  "group_by_type [] grouped = grouped"
| "group_by_type (interaction # rest) grouped =
     group_by_type rest
       (AList.update (itype_of interaction)
          (insert interaction
             (case map_of grouped (itype_of interaction) of None \<Rightarrow> {} | Some s \<Rightarrow> s))
          grouped)"

text \<open>\<^verbatim>\<open>by_type.get(itype, set())\<close>\<close>

definition get_group ::
  "('t \<times> (string \<times> string \<times> 't) set) list \<Rightarrow> 't \<Rightarrow> (string \<times> string \<times> 't) set" where
  "get_group grouped itype = (case map_of grouped itype of None \<Rightarrow> {} | Some s \<Rightarrow> s)"

text \<open>\<^verbatim>\<open>2 * p * r / (p + r) if (p + r) > 0 else 0.0\<close>\<close>

definition f1_of :: "real \<Rightarrow> real \<Rightarrow> real" where
  "f1_of p r = (if p + r > 0 then 2 * p * r / (p + r) else 0)"

text \<open>The body of the loop over \<^verbatim>\<open>all_types\<close>.\<close>

definition metrics_of_type ::
  "(string \<times> string \<times> 't) set \<Rightarrow> (string \<times> string \<times> 't) set \<Rightarrow> type_metrics" where
  "metrics_of_type pred_type exp_type =
     \<lparr>predicted = card pred_type,
      experimental = card exp_type,
      tp = card (pred_type \<inter> exp_type),
      fp = card (pred_type - exp_type),
      fn = card (exp_type - pred_type),
      type_precision =
        (if pred_type \<noteq> {} then real (card (pred_type \<inter> exp_type)) / real (card pred_type) else 0),
      type_recall =
        (if exp_type \<noteq> {} then real (card (pred_type \<inter> exp_type)) / real (card exp_type) else 0),
      f1 = f1_of
        (if pred_type \<noteq> {} then real (card (pred_type \<inter> exp_type)) / real (card pred_type) else 0)
        (if exp_type \<noteq> {} then real (card (pred_type \<inter> exp_type)) / real (card exp_type) else 0)\<rparr>"

definition all_types ::
  "(string \<times> string \<times> 't) list \<Rightarrow> (string \<times> string \<times> 't) list \<Rightarrow> 't set" where
  "all_types pred_interactions exp_interactions =
     set (map fst (group_by_type pred_interactions []))
       \<union> set (map fst (group_by_type exp_interactions []))"

definition overall_of ::
  "(string \<times> string \<times> 't) set \<Rightarrow> (string \<times> string \<times> 't) set \<Rightarrow> overall_metrics" where
  "overall_of pred_set exp_set =
     \<lparr>predicted_total = card pred_set,
      experimental_total = card exp_set,
      true_positives = card (pred_set \<inter> exp_set),
      false_positives = card (pred_set - exp_set),
      false_negatives = card (exp_set - pred_set),
      precision =
        (if pred_set \<noteq> {} then real (card (pred_set \<inter> exp_set)) / real (card pred_set) else 0),
      recall =
        (if exp_set \<noteq> {} then real (card (pred_set \<inter> exp_set)) / real (card exp_set) else 0),
      f1_score = f1_of
        (if pred_set \<noteq> {} then real (card (pred_set \<inter> exp_set)) / real (card pred_set) else 0)
        (if exp_set \<noteq> {} then real (card (pred_set \<inter> exp_set)) / real (card exp_set) else 0)\<rparr>"

definition compare_interactions ::
  "(string \<times> string \<times> 't) list \<Rightarrow> (string \<times> string \<times> 't) list \<Rightarrow> 't comparison" where
  "compare_interactions pred_interactions exp_interactions =
     \<lparr>overall = overall_of (set pred_interactions) (set exp_interactions),
      by_type = (\<lambda>itype.
        if itype \<in> all_types pred_interactions exp_interactions
        then Some (metrics_of_type
                     (get_group (group_by_type pred_interactions []) itype)
                     (get_group (group_by_type exp_interactions []) itype))
        else None)\<rparr>"

section \<open>\<^verbatim>\<open>06_compare_structures.py\<close>: the per-type table of \<^verbatim>\<open>generate_comparison_report\<close>\<close>

text \<open>
  \<^verbatim>\<open>sorted(items, key=..., reverse=True)\<close>: Python's sort is stable, and with
  \<^verbatim>\<open>reverse=True\<close> it reverses the list, sorts it ascending and reverses the result, so
  that elements with equal keys keep their order. \<open>sort_key\<close> is a stable insertion sort.
  The rows of the table are written in the order of this list; \<open>by_type_items\<close> is
  \<^verbatim>\<open>interaction_comparison['by_type'].items()\<close>, in the order of the dictionary.
\<close>

definition py_sorted_reverse :: "('a \<Rightarrow> nat) \<Rightarrow> 'a list \<Rightarrow> 'a list" where
  "py_sorted_reverse key xs = rev (sort_key key (rev xs))"

definition report_type_rows :: "(string \<times> type_metrics) list \<Rightarrow> (string \<times> type_metrics) list" where
  "report_type_rows by_type_items = py_sorted_reverse (\<lambda>x. predicted (snd x)) by_type_items"

section \<open>Conditions and example inputs used in the properties\<close>

text \<open>
  An atom path is malformed when it has fewer than four segments. The contacts that
  both parsers pass over are: a contact that is not an object, and an object whose
  \<^verbatim>\<open>bgn_atom\<close> is absent or is a string that is a malformed path. An object whose
  \<^verbatim>\<open>bgn_atom\<close> is present and is not a string is not among them: the parsers call
  \<^verbatim>\<open>.strip\<close> on it, which raises.
\<close>

definition malformed_path :: "string \<Rightarrow> bool" where
  "malformed_path p = (length (atom_path p) < 4)"

fun skipped_contact :: "json \<Rightarrow> bool" where
  "skipped_contact (JObj cfields) =
     (case map_of cfields ''bgn_atom'' of
        None \<Rightarrow> True
      | Some (JStr p) \<Rightarrow> malformed_path p
      | Some other \<Rightarrow> False)"
| "skipped_contact other = True"

fun is_string :: "json \<Rightarrow> bool" where
  "is_string (JStr s) = True"
| "is_string other = False"

fun is_contact_list :: "json \<Rightarrow> bool" where
  "is_contact_list (JList cs) = True"
| "is_contact_list other = False"

text \<open>The contact map of the scenario, and entries for the other examples.\<close>

definition example_contact_map :: json where
  "example_contact_map =
     JObj [(''/A/10/ALA/CA'',
            JObj [(''contact'',
                   JList [JObj [(''bgn_atom'', JStr ''/B/20/GLY/CB''),
                                (''type'', JStr ''hbond''),
                                (''distance'', JNum 3.2)]])])]"

definition hbond_contact :: json where
  "hbond_contact =
     JObj [(''bgn_atom'', JStr ''/B/20/GLY/CB''), (''type'', JStr ''hbond''), (''distance'', JNum 3.2)]"

definition good_entry :: "string \<times> json" where
  "good_entry = (''/A/10/ALA/CA'', JObj [(''contact'', JList [hbond_contact])])"

definition short_partner_contact :: json where
  "short_partner_contact = JObj [(''bgn_atom'', JStr ''/B/20''), (''type'', JStr ''vdw'')]"

definition vdw_contact :: json where
  "vdw_contact =
     JObj [(''bgn_atom'', JStr ''/B/21/LEU/CD1''), (''type'', JStr ''vdw''), (''distance'', JNum 3.9)]"

definition vdw_entry :: "string \<times> json" where
  "vdw_entry = (''/A/11/VAL/CB'', JObj [(''contact'', JList [vdw_contact])])"

definition null_partner_contact :: json where
  "null_partner_contact =
     JObj [(''bgn_atom'', JNull), (''type'', JStr ''vdw''), (''distance'', JNum 3.5)]"

definition null_partner_entry :: "string \<times> json" where
  "null_partner_entry = (''/C/5/SER/OG'', JObj [(''contact'', JList [null_partner_contact])])"

definition no_string_floats :: "string \<Rightarrow> real option" where
  "no_string_floats s = None"

text \<open>Atoms, residues, a parser and superimposers for the examples of
  \<^verbatim>\<open>calculate_rmsd\<close>: the parser knows three files and fails on every other path.\<close>

definition ca_atom :: atom where
  "ca_atom = \<lparr>atom_name = ''CA'', coord = (0, 0, 0)\<rparr>"

definition cb_atom :: atom where
  "cb_atom = \<lparr>atom_name = ''CB'', coord = (1, 0, 0)\<rparr>"

definition ala_residue :: residue where
  "ala_residue = \<lparr>is_aa = True, atoms = [ca_atom, cb_atom]\<rparr>"

definition water_residue :: residue where
  "water_residue = \<lparr>is_aa = False, atoms = [\<lparr>atom_name = ''O'', coord = (0, 0, 1)\<rparr>]\<rparr>"

definition example_structures :: "string \<Rightarrow> lib_exn + pdb_structure" where
  "example_structures path =
     (if path = ''predicted.pdb'' then Inr [[[ala_residue, ala_residue]]]
      else if path = ''experimental.pdb'' then Inr [[[ala_residue]]]
      else if path = ''water.pdb'' then Inr [[[water_residue]]]
      else Inl (LibException ''cannot parse''))"

definition constant_rms :: "atom list \<Rightarrow> atom list \<Rightarrow> lib_exn + real" where
  "constant_rms fixed moving = Inr 0"

definition span_rms :: "atom list \<Rightarrow> atom list \<Rightarrow> lib_exn + real" where
  "span_rms fixed moving = Inr (real (length fixed) + real (length moving) / 4)"

definition two_atom_rms :: "atom list \<Rightarrow> atom list \<Rightarrow> lib_exn + real" where
  "two_atom_rms fixed moving =
     (if length fixed = 2 \<and> length moving = 2 then Inr (5 / 2)
      else Inl (LibException ''unexpected atoms''))"

definition failing_svd :: "atom list \<Rightarrow> atom list \<Rightarrow> lib_exn + real" where
  "failing_svd fixed moving = Inl (LibException ''SVD did not converge'')"

text \<open>
  The order the specification asks of the per-type rows: descending by predicted count,
  ties by ascending type name. It follows the specification's words, not the source.
  \<open>tied_rows\<close> is a \<^verbatim>\<open>by_type\<close> dictionary with two types of equal predicted count.
\<close>

definition spec_row_order :: "string \<times> type_metrics \<Rightarrow> string \<times> type_metrics \<Rightarrow> bool" where
  "spec_row_order a b =
     (predicted (snd b) < predicted (snd a)
      \<or> (predicted (snd a) = predicted (snd b) \<and> fst a \<le> fst b))"

definition tied_rows :: "(string \<times> type_metrics) list" where
  "tied_rows =
     [(''vdw'', \<lparr>predicted = 1, experimental = 0, tp = 0, fp = 1, fn = 0,
                 type_precision = 0, type_recall = 0, f1 = 0\<rparr>),
      (''hbond'', \<lparr>predicted = 1, experimental = 0, tp = 0, fp = 1, fn = 0,
                   type_precision = 0, type_recall = 0, f1 = 0\<rparr>)]"

text \<open>Two interaction lists with three types between them; the predicted list repeats
  one tuple, as atom-level contacts of one residue pair do.\<close>

definition predicted_example :: "(string \<times> string \<times> string) list" where
  "predicted_example =
     [(''A:ALA10'', ''B:GLY20'', ''hbond''),
      (''A:ALA11'', ''B:GLY21'', ''vdw''),
      (''A:ALA11'', ''B:GLY21'', ''vdw''),
      (''A:SER12'', ''B:GLY21'', ''vdw'')]"

definition experimental_example :: "(string \<times> string \<times> string) list" where
  "experimental_example =
     [(''A:ALA11'', ''B:GLY21'', ''vdw''),
      (''A:ALA10'', ''B:GLY20'', ''hbond''),
      (''A:LYS13'', ''B:ASP22'', ''ionic'')]"


definition hbond_record :: interaction_rec where
  "hbond_record =
     \<lparr>chain1 = ''A'', resnum1 = ''10'', resname1 = ''ALA'', atom1 = ''CA'',
      chain2 = ''B'', resnum2 = ''20'', resname2 = ''GLY'', atom2 = ''CB'',
      interaction_type = JStr ''hbond'', distance = 3.2\<rparr>"


definition vdw_record :: interaction_rec where
  "vdw_record =
     \<lparr>chain1 = ''A'', resnum1 = ''11'', resname1 = ''VAL'', atom1 = ''CB'',
      chain2 = ''B'', resnum2 = ''21'', resname2 = ''LEU'', atom2 = ''CD1'',
      interaction_type = JStr ''vdw'', distance = 3.9\<rparr>"

section \<open>Properties of the parsers\<close>

lemma for_each_append:
  "for_each body (xs @ ys) st =
     (case for_each body xs st of Inl e \<Rightarrow> Inl e | Inr st' \<Rightarrow> for_each body ys st')"
  by (induction xs arbitrary: st) (auto split: sum.splits)

lemma for_each_skip:
  assumes "\<And>s. body x s = Inr s"
  shows "for_each body (xs @ x # ys) st = for_each body (xs @ ys) st"
  by (simp add: for_each_append assms split: sum.splits)

lemma for_each_replace:
  assumes "\<And>s. body x s = body x' s"
  shows "for_each body (xs @ x # ys) st = for_each body (xs @ x' # ys) st"
  by (simp add: for_each_append assms split: sum.splits)

lemma short_path_cases:
  "malformed_path p \<Longrightarrow>
     (case atom_path p of a # b # c # d # e \<Rightarrow> f a b c d e | short \<Rightarrow> g) = g"
  by (auto simp: malformed_path_def split: list.splits)

lemma malformed_path_empty: "malformed_path []"
  by (simp add: malformed_path_def atom_path_def strip_char_def)

lemma contact_body_skip: "skipped_contact c \<Longrightarrow> contact_body res1 c st = Inr st"
  using malformed_path_empty
  by (cases c) (auto simp: contact_body_def dict_get_def short_path_cases split: option.splits json.splits)

lemma extract_contact_body_skip:
  "skipped_contact c \<Longrightarrow> extract_contact_body f src c acc = Inr acc"
  using malformed_path_empty
  by (cases c) (auto simp: extract_contact_body_def dict_get_def short_path_cases split: option.splits json.splits)

lemma atom_body_malformed_key: "malformed_path key \<Longrightarrow> atom_body (key, v) st = Inr st"
  by (auto simp: atom_body_def short_path_cases split: json.splits option.splits)

lemma extract_atom_body_malformed_key:
  "malformed_path key \<Longrightarrow> extract_atom_body f (key, v) acc = Inr acc"
  by (auto simp: extract_atom_body_def short_path_cases split: json.splits option.splits)


lemma atom_body_drop_contact:
  assumes "skipped_contact c"
    and "map_of atom_data ''contact'' = Some (JList (cs1 @ c # cs2))"
    and "map_of atom_data' ''contact'' = Some (JList (cs1 @ cs2))"
  shows "atom_body (key, JObj atom_data) st = atom_body (key, JObj atom_data') st"
  using assms
  by (auto simp: atom_body_def for_each_skip contact_body_skip split: list.splits)

lemma extract_atom_body_drop_contact:
  assumes "skipped_contact c"
    and "map_of atom_data ''contact'' = Some (JList (cs1 @ c # cs2))"
    and "map_of atom_data' ''contact'' = Some (JList (cs1 @ cs2))"
  shows "extract_atom_body f (key, JObj atom_data) acc = extract_atom_body f (key, JObj atom_data') acc"
  using assms
  by (auto simp: extract_atom_body_def for_each_skip extract_contact_body_skip split: list.splits)

lemma atom_body_single_skipped:
  assumes "skipped_contact c" and "\<not> is_contact_list c"
    and "map_of atom_data ''contact'' = Some c"
  shows "atom_body (key, JObj atom_data) st = Inr st"
  using assms
  by (cases c) (auto simp: atom_body_def contact_body_skip split: list.splits)

lemma extract_atom_body_single_skipped:
  assumes "skipped_contact c" and "\<not> is_contact_list c"
    and "map_of atom_data ''contact'' = Some c"
  shows "extract_atom_body f (key, JObj atom_data) acc = Inr acc"
  using assms
  by (cases c) (auto simp: extract_atom_body_def extract_contact_body_skip split: list.splits)

text \<open>A \<^verbatim>\<open>bgn_atom\<close> that is present and not a string: \<^verbatim>\<open>.strip\<close> raises on it, in both
  parsers, and the exception ends the parse.\<close>

lemma non_string_partner_raises:
  assumes "map_of cfields ''bgn_atom'' = Some b" and "\<not> is_string b"
  shows "contact_body res1 (JObj cfields) st = Inl AttributeError"
    and "extract_contact_body float_of_str src (JObj cfields) acc = Inl AttributeError"
  using assms
  by (cases b; simp add: contact_body_def extract_contact_body_def dict_get_def)+

lemmas eval_parse =
  parse_arpeggio_interactions_def extract_interactions_def atom_body_def contact_body_def
  extract_atom_body_def extract_contact_body_def coerce_distance_def atom_path_def strip_char_def
  dict_get_def residue_id_def sorted_pair_def Let_def

text \<open>
  Claim C4. The contact map with the single entry \<^verbatim>\<open>/A/10/ALA/CA\<close> in contact with
  \<^verbatim>\<open>/B/20/GLY/CB\<close>, type \<^verbatim>\<open>hbond\<close>, distance 3.2, gives exactly one interaction:
  \<^verbatim>\<open>parse_arpeggio_interactions\<close> returns the one tuple with the sorted residue pair
  \<^verbatim>\<open>("A:ALA10", "B:GLY20")\<close> and the type \<^verbatim>\<open>hbond\<close>; \<^verbatim>\<open>extract_interactions\<close> returns the
  one record with the type \<^verbatim>\<open>hbond\<close> and the distance 3.2, and the residue pair that
  \<^verbatim>\<open>analyze_interactions\<close> builds for this record is the same sorted pair.
\<close>

theorem example_contact_map_parses:
  "parse_arpeggio_interactions example_contact_map
     = Inr ([(''A:ALA10'', ''B:GLY20'', JStr ''hbond'')], [(JStr ''hbond'', 1)])
   \<and> extract_interactions float_of_str example_contact_map
     = Inr [\<lparr>chain1 = ''A'', resnum1 = ''10'', resname1 = ''ALA'', atom1 = ''CA'',
             chain2 = ''B'', resnum2 = ''20'', resname2 = ''GLY'', atom2 = ''CB'',
             interaction_type = JStr ''hbond'', distance = 3.2\<rparr>]
   \<and> residue_pair_key
        \<lparr>chain1 = ''A'', resnum1 = ''10'', resname1 = ''ALA'', atom1 = ''CA'',
         chain2 = ''B'', resnum2 = ''20'', resname2 = ''GLY'', atom2 = ''CB'',
         interaction_type = JStr ''hbond'', distance = 3.2\<rparr>
     = (''A:ALA10'', ''B:GLY20'')"
  by (simp add: example_contact_map_def eval_parse residue_pair_key_def)

text \<open>
  Claim C8, as stated: a contact object with a malformed partner path is skipped and
  leaves the records of the other entries as they are. For a map of three entries whose
  second entry has the one contact \<^verbatim>\<open>{"bgn_atom": null, ...}\<close>, both parsers raise
  \<^verbatim>\<open>AttributeError\<close> and return no record at all, while the map of the two other entries
  gives their two records.
\<close>

theorem malformed_partner_skipped_counterexample:
  "parse_arpeggio_interactions (JObj [good_entry, vdw_entry])
     = Inr ([(''A:ALA10'', ''B:GLY20'', JStr ''hbond''), (''A:VAL11'', ''B:LEU21'', JStr ''vdw'')],
            [(JStr ''hbond'', 1), (JStr ''vdw'', 1)])
   \<and> parse_arpeggio_interactions (JObj [good_entry, null_partner_entry, vdw_entry])
     = Inl AttributeError
   \<and> extract_interactions no_string_floats (JObj [good_entry, vdw_entry])
     = Inr [hbond_record, vdw_record]
   \<and> extract_interactions no_string_floats (JObj [good_entry, null_partner_entry, vdw_entry])
     = Inl AttributeError"
  by (simp add: good_entry_def vdw_entry_def null_partner_entry_def hbond_contact_def
      vdw_contact_def null_partner_contact_def hbond_record_def vdw_record_def eval_parse)

text \<open>
  Claim C8, amended. An entry whose key has fewer than four segments is skipped by both
  parsers: the result is the result for the map without the entry. A contact in a
  contact list that is not an object, or that is an object whose \<^verbatim>\<open>bgn_atom\<close> is absent or
  is a string with fewer than four segments, is skipped: the result is the result for
  the same entry without that contact. An entry whose single contact (not a list) is
  such a value gives nothing. Count and content of the records of the other entries do
  not change; where another entry makes the parser raise, it raises with and without
  the skipped entry.
\<close>

theorem malformed_entries_skipped:
  "(malformed_path key \<longrightarrow>
      parse_arpeggio_interactions (JObj (before @ (key, v) # after))
        = parse_arpeggio_interactions (JObj (before @ after)) \<and>
      extract_interactions float_of_str (JObj (before @ (key, v) # after))
        = extract_interactions float_of_str (JObj (before @ after)))
   \<and> (skipped_contact c \<and> map_of atom_data ''contact'' = Some (JList (cs1 @ c # cs2))
        \<and> map_of atom_data' ''contact'' = Some (JList (cs1 @ cs2)) \<longrightarrow>
      parse_arpeggio_interactions (JObj (before @ (key2, JObj atom_data) # after))
        = parse_arpeggio_interactions (JObj (before @ (key2, JObj atom_data') # after)) \<and>
      extract_interactions float_of_str (JObj (before @ (key2, JObj atom_data) # after))
        = extract_interactions float_of_str (JObj (before @ (key2, JObj atom_data') # after)))
   \<and> (skipped_contact c3 \<and> \<not> is_contact_list c3 \<and> map_of atom_data3 ''contact'' = Some c3 \<longrightarrow>
      parse_arpeggio_interactions (JObj (before @ (key3, JObj atom_data3) # after))
        = parse_arpeggio_interactions (JObj (before @ after)) \<and>
      extract_interactions float_of_str (JObj (before @ (key3, JObj atom_data3) # after))
        = extract_interactions float_of_str (JObj (before @ after)))"
proof (intro conjI impI)
  assume m: "malformed_path key"
  have p: "\<And>s. atom_body (key, v) s = Inr s"
    using m by (rule atom_body_malformed_key)
  have x: "\<And>s. extract_atom_body float_of_str (key, v) s = Inr s"
    using m by (rule extract_atom_body_malformed_key)
  show "parse_arpeggio_interactions (JObj (before @ (key, v) # after))
        = parse_arpeggio_interactions (JObj (before @ after))"
    using p by (simp add: parse_arpeggio_interactions_def for_each_skip [of atom_body "(key, v)"])
  show "extract_interactions float_of_str (JObj (before @ (key, v) # after))
        = extract_interactions float_of_str (JObj (before @ after))"
    using x by (simp add: extract_interactions_def
        for_each_skip [of "extract_atom_body float_of_str" "(key, v)"])
next
  assume a: "skipped_contact c \<and> map_of atom_data ''contact'' = Some (JList (cs1 @ c # cs2))
        \<and> map_of atom_data' ''contact'' = Some (JList (cs1 @ cs2))"
  have p: "\<And>s. atom_body (key2, JObj atom_data) s = atom_body (key2, JObj atom_data') s"
    using a by (auto intro: atom_body_drop_contact)
  have x: "\<And>s. extract_atom_body float_of_str (key2, JObj atom_data) s
             = extract_atom_body float_of_str (key2, JObj atom_data') s"
    using a by (auto intro: extract_atom_body_drop_contact)
  show "parse_arpeggio_interactions (JObj (before @ (key2, JObj atom_data) # after))
        = parse_arpeggio_interactions (JObj (before @ (key2, JObj atom_data') # after))"
    using p by (simp add: parse_arpeggio_interactions_def
        for_each_replace [of atom_body "(key2, JObj atom_data)" "(key2, JObj atom_data')"])
  show "extract_interactions float_of_str (JObj (before @ (key2, JObj atom_data) # after))
        = extract_interactions float_of_str (JObj (before @ (key2, JObj atom_data') # after))"
    using x by (simp add: extract_interactions_def
        for_each_replace [of "extract_atom_body float_of_str" "(key2, JObj atom_data)"
          "(key2, JObj atom_data')"])
next
  assume a: "skipped_contact c3 \<and> \<not> is_contact_list c3 \<and> map_of atom_data3 ''contact'' = Some c3"
  have p: "\<And>s. atom_body (key3, JObj atom_data3) s = Inr s"
    using a by (auto intro: atom_body_single_skipped)
  have x: "\<And>s. extract_atom_body float_of_str (key3, JObj atom_data3) s = Inr s"
    using a by (auto intro: extract_atom_body_single_skipped)
  show "parse_arpeggio_interactions (JObj (before @ (key3, JObj atom_data3) # after))
        = parse_arpeggio_interactions (JObj (before @ after))"
    using p by (simp add: parse_arpeggio_interactions_def
        for_each_skip [of atom_body "(key3, JObj atom_data3)"])
  show "extract_interactions float_of_str (JObj (before @ (key3, JObj atom_data3) # after))
        = extract_interactions float_of_str (JObj (before @ after))"
    using x by (simp add: extract_interactions_def
        for_each_skip [of "extract_atom_body float_of_str" "(key3, JObj atom_data3)"])
qed


theorem malformed_entries_skipped_witness:
  "malformed_path ''/A/10''
   \<and> skipped_contact short_partner_contact
   \<and> skipped_contact (JStr ''none'') \<and> \<not> is_contact_list (JStr ''none'')
   \<and> parse_arpeggio_interactions (JObj ([good_entry] @ [vdw_entry]))
       = Inr ([(''A:ALA10'', ''B:GLY20'', JStr ''hbond''), (''A:VAL11'', ''B:LEU21'', JStr ''vdw'')],
              [(JStr ''hbond'', 1), (JStr ''vdw'', 1)])
   \<and> extract_interactions no_string_floats (JObj ([good_entry] @ [vdw_entry]))
       = Inr [hbond_record, vdw_record]
   \<and> parse_arpeggio_interactions
        (JObj ([good_entry] @ (''/A/10'', JObj [(''contact'', JList [vdw_contact])]) # [vdw_entry]))
       = parse_arpeggio_interactions (JObj ([good_entry] @ [vdw_entry]))
   \<and> extract_interactions no_string_floats
        (JObj ([good_entry] @ (''/A/10'', JObj [(''contact'', JList [vdw_contact])]) # [vdw_entry]))
       = extract_interactions no_string_floats (JObj ([good_entry] @ [vdw_entry]))
   \<and> parse_arpeggio_interactions
        (JObj ([good_entry] @ (''/C/5/SER/OG'', JObj [(''contact'', JList ([hbond_contact] @ short_partner_contact # [vdw_contact]))]) # [vdw_entry]))
       = parse_arpeggio_interactions
        (JObj ([good_entry] @ (''/C/5/SER/OG'', JObj [(''contact'', JList ([hbond_contact] @ [vdw_contact]))]) # [vdw_entry]))
   \<and> extract_interactions no_string_floats
        (JObj ([good_entry] @ (''/C/5/SER/OG'', JObj [(''contact'', JList ([hbond_contact] @ short_partner_contact # [vdw_contact]))]) # [vdw_entry]))
       = extract_interactions no_string_floats
        (JObj ([good_entry] @ (''/C/5/SER/OG'', JObj [(''contact'', JList ([hbond_contact] @ [vdw_contact]))]) # [vdw_entry]))
   \<and> parse_arpeggio_interactions
        (JObj ([good_entry] @ (''/C/5/SER/OG'', JObj [(''contact'', JList ([hbond_contact] @ [vdw_contact]))]) # [vdw_entry]))
       = Inr ([(''A:ALA10'', ''B:GLY20'', JStr ''hbond''), (''B:GLY20'', ''C:SER5'', JStr ''hbond''),
               (''B:LEU21'', ''C:SER5'', JStr ''vdw''), (''A:VAL11'', ''B:LEU21'', JStr ''vdw'')],
              [(JStr ''hbond'', 2), (JStr ''vdw'', 2)])
   \<and> parse_arpeggio_interactions
        (JObj ([good_entry] @ (''/D/7/LYS/NZ'', JObj [(''contact'', JStr ''none'')]) # [vdw_entry]))
       = parse_arpeggio_interactions (JObj ([good_entry] @ [vdw_entry]))
   \<and> extract_interactions no_string_floats
        (JObj ([good_entry] @ (''/D/7/LYS/NZ'', JObj [(''contact'', JStr ''none'')]) # [vdw_entry]))
       = extract_interactions no_string_floats (JObj ([good_entry] @ [vdw_entry]))"
proof -
  note ex = good_entry_def vdw_entry_def hbond_contact_def vdw_contact_def hbond_record_def
    vdw_record_def eval_parse
  have h1: "malformed_path ''/A/10''"
    by (simp add: malformed_path_def atom_path_def strip_char_def)
  have h2: "skipped_contact short_partner_contact"
    by (simp add: short_partner_contact_def malformed_path_def atom_path_def strip_char_def)
  have h3: "skipped_contact (JStr ''none'') \<and> \<not> is_contact_list (JStr ''none'')"
    by simp
  have b1: "parse_arpeggio_interactions (JObj ([good_entry] @ [vdw_entry]))
       = Inr ([(''A:ALA10'', ''B:GLY20'', JStr ''hbond''), (''A:VAL11'', ''B:LEU21'', JStr ''vdw'')],
              [(JStr ''hbond'', 1), (JStr ''vdw'', 1)])"
    by (simp add: ex)
  have b2: "extract_interactions no_string_floats (JObj ([good_entry] @ [vdw_entry]))
       = Inr [hbond_record, vdw_record]"
    by (simp add: ex)
  have b3: "parse_arpeggio_interactions
        (JObj ([good_entry] @ (''/C/5/SER/OG'', JObj [(''contact'', JList ([hbond_contact] @ [vdw_contact]))]) # [vdw_entry]))
       = Inr ([(''A:ALA10'', ''B:GLY20'', JStr ''hbond''), (''B:GLY20'', ''C:SER5'', JStr ''hbond''),
               (''B:LEU21'', ''C:SER5'', JStr ''vdw''), (''A:VAL11'', ''B:LEU21'', JStr ''vdw'')],
              [(JStr ''hbond'', 2), (JStr ''vdw'', 2)])"
    by (simp add: ex)
  note t = malformed_entries_skipped [where key = "''/A/10''"
        and v = "JObj [(''contact'', JList [vdw_contact])]"
        and before = "[good_entry]" and after = "[vdw_entry]"
        and float_of_str = no_string_floats
        and c = short_partner_contact and ?cs1.0 = "[hbond_contact]" and ?cs2.0 = "[vdw_contact]"
        and atom_data = "[(''contact'', JList ([hbond_contact] @ short_partner_contact # [vdw_contact]))]"
        and atom_data' = "[(''contact'', JList ([hbond_contact] @ [vdw_contact]))]"
        and ?key2.0 = "''/C/5/SER/OG''"
        and ?c3.0 = "JStr ''none''" and ?atom_data3.0 = "[(''contact'', JStr ''none'')]"
        and ?key3.0 = "''/D/7/LYS/NZ''"]
  have m1: "map_of [(''contact'', JList ([hbond_contact] @ short_partner_contact # [vdw_contact]))] ''contact''
      = Some (JList ([hbond_contact] @ short_partner_contact # [vdw_contact]))"
    and m2: "map_of [(''contact'', JList ([hbond_contact] @ [vdw_contact]))] ''contact''
      = Some (JList ([hbond_contact] @ [vdw_contact]))"
    and m3: "map_of [(''contact'', JStr ''none'')] ''contact'' = Some (JStr ''none'')"
    by simp_all
  show ?thesis
    using h1 h2 h3 b1 b2 b3 m1 m2 m3 t by blast
qed


section \<open>Properties of \<^verbatim>\<open>calculate_rmsd\<close>\<close>

text \<open>
  Claim C1. With \<open>n\<close> the minimum of the two lengths, the prefixes of length \<open>n\<close> have
  length \<open>n\<close>; the result for two atom sequences is the result for their prefixes;
  the superimposer is consulted on the two prefixes only (two superimposers that agree
  there give the same result). What is reported: for \<open>n = 0\<close> the result
  \<^verbatim>\<open>No matching atoms\<close>; for \<open>n \<noteq> 0\<close>, when the superimposer returns a deviation for
  the two prefixes, exactly that deviation with \<^verbatim>\<open>n_atoms\<close> \<open>n\<close>, and when it raises, its
  exception; and a result without error reports \<open>n\<close> atoms and the deviation the
  superimposer returned for the two prefixes.
\<close>

theorem superposition_over_prefixes:
  assumes "n = min (length pred_atoms) (length exp_atoms)"
  shows "length (take n pred_atoms) = n \<and> length (take n exp_atoms) = n
    \<and> match_and_superimpose superimposer atype pred_atoms exp_atoms
        = match_and_superimpose superimposer atype (take n pred_atoms) (take n exp_atoms)
    \<and> (superimposer (take n exp_atoms) (take n pred_atoms) = superimposer' (take n exp_atoms) (take n pred_atoms)
        \<longrightarrow> match_and_superimpose superimposer atype pred_atoms exp_atoms
            = match_and_superimpose superimposer' atype pred_atoms exp_atoms)
    \<and> (match_and_superimpose superimposer atype pred_atoms exp_atoms = Inr result \<and> error result = None
        \<longrightarrow> n_atoms result = n
            \<and> superimposer (take n exp_atoms) (take n pred_atoms) = Inr (rmsd result))
    \<and> (n = 0 \<longrightarrow>
          match_and_superimpose superimposer atype pred_atoms exp_atoms
            = Inr \<lparr>rmsd = 0, n_atoms = 0, atom_type = None, error = Some ''No matching atoms''\<rparr>)
    \<and> (n \<noteq> 0 \<and> superimposer (take n exp_atoms) (take n pred_atoms) = Inr rms \<longrightarrow>
          match_and_superimpose superimposer atype pred_atoms exp_atoms
            = Inr \<lparr>rmsd = rms, n_atoms = n, atom_type = Some atype, error = None\<rparr>)
    \<and> (n \<noteq> 0 \<and> superimposer (take n exp_atoms) (take n pred_atoms) = Inl e \<longrightarrow>
          match_and_superimpose superimposer atype pred_atoms exp_atoms = Inl e)"
  using assms
  by (auto simp: match_and_superimpose_def min_def split: sum.splits if_splits)

theorem superposition_over_prefixes_witness:
  "(2::nat) = min (length [ca_atom, cb_atom, ca_atom]) (length [cb_atom, ca_atom])
   \<and> (2::nat) \<noteq> 0
   \<and> span_rms (take 2 [cb_atom, ca_atom]) (take 2 [ca_atom, cb_atom, ca_atom]) = Inr (5 / 2)
   \<and> span_rms (take 2 [cb_atom, ca_atom]) (take 2 [ca_atom, cb_atom, ca_atom])
       = two_atom_rms (take 2 [cb_atom, ca_atom]) (take 2 [ca_atom, cb_atom, ca_atom])
   \<and> match_and_superimpose span_rms ''all'' [ca_atom, cb_atom, ca_atom] [cb_atom, ca_atom]
       = Inr \<lparr>rmsd = 5 / 2, n_atoms = 2, atom_type = Some ''all'', error = None\<rparr>
   \<and> match_and_superimpose span_rms ''all'' [ca_atom, cb_atom, ca_atom] [cb_atom, ca_atom]
       = match_and_superimpose span_rms ''all''
           (take 2 [ca_atom, cb_atom, ca_atom]) (take 2 [cb_atom, ca_atom])
   \<and> match_and_superimpose span_rms ''all'' [ca_atom, cb_atom, ca_atom] [cb_atom, ca_atom]
       = match_and_superimpose two_atom_rms ''all'' [ca_atom, cb_atom, ca_atom] [cb_atom, ca_atom]
   \<and> n_atoms \<lparr>rmsd = 5 / 2, n_atoms = 2, atom_type = Some ''all'', error = None\<rparr> = 2
   \<and> failing_svd (take 2 [cb_atom, ca_atom]) (take 2 [ca_atom, cb_atom, ca_atom])
       = Inl (LibException ''SVD did not converge'')
   \<and> match_and_superimpose failing_svd ''all'' [ca_atom, cb_atom, ca_atom] [cb_atom, ca_atom]
       = Inl (LibException ''SVD did not converge'')
   \<and> (0::nat) = min (length [ca_atom, cb_atom, ca_atom]) (length ([] :: atom list))
   \<and> match_and_superimpose span_rms ''all'' [ca_atom, cb_atom, ca_atom] []
       = Inr \<lparr>rmsd = 0, n_atoms = 0, atom_type = None, error = Some ''No matching atoms''\<rparr>"
proof -
  let ?p = "[ca_atom, cb_atom, ca_atom]"
  let ?x = "[cb_atom, ca_atom]"
  let ?r = "\<lparr>rmsd = 5 / 2, n_atoms = 2, atom_type = Some ''all'', error = None\<rparr>"
  have n: "(2::nat) = min (length ?p) (length ?x)"
    by simp
  have n0: "(2::nat) \<noteq> 0"
    by simp
  have z: "(0::nat) = min (length ?p) (length ([] :: atom list))"
    by simp
  have s: "span_rms (take 2 ?x) (take 2 ?p) = Inr (5 / 2)"
    by (simp add: span_rms_def)
  have a: "span_rms (take 2 ?x) (take 2 ?p) = two_atom_rms (take 2 ?x) (take 2 ?p)"
    by (simp add: span_rms_def two_atom_rms_def)
  have f: "failing_svd (take 2 ?x) (take 2 ?p) = Inl (LibException ''SVD did not converge'')"
    by (simp add: failing_svd_def)
  have e: "error ?r = None"
    by simp
  note t = superposition_over_prefixes [OF n, where superimposer = span_rms
      and superimposer' = two_atom_rms and atype = "''all''" and result = ?r and rms = "5 / 2"]
  note tf = superposition_over_prefixes [OF n, where superimposer = failing_svd
      and atype = "''all''" and e = "LibException ''SVD did not converge''"]
  note tz = superposition_over_prefixes [OF z, where superimposer = span_rms and atype = "''all''"]
  have r: "match_and_superimpose span_rms ''all'' ?p ?x = Inr ?r"
    using t n0 s by blast
  have c1: "match_and_superimpose span_rms ''all'' ?p ?x
      = match_and_superimpose span_rms ''all'' (take 2 ?p) (take 2 ?x)"
    using t by blast
  have c2: "match_and_superimpose span_rms ''all'' ?p ?x
      = match_and_superimpose two_atom_rms ''all'' ?p ?x"
    using t a by blast
  have c3: "n_atoms ?r = 2"
    using t r e by blast
  have c4: "match_and_superimpose failing_svd ''all'' ?p ?x
      = Inl (LibException ''SVD did not converge'')"
    using tf n0 f by blast
  have c5: "match_and_superimpose span_rms ''all'' ?p []
      = Inr \<lparr>rmsd = 0, n_atoms = 0, atom_type = None, error = Some ''No matching atoms''\<rparr>"
    using tz by blast
  show ?thesis
    using n n0 s a r c1 c2 c3 f c4 z c5 by (intro conjI)
qed

text \<open>
  Claim C2. When both files parse and one of the two extracted atom sequences is empty,
  \<^verbatim>\<open>calculate_rmsd\<close> returns a result value, not an exception, with \<^verbatim>\<open>rmsd\<close> 0.0,
  \<^verbatim>\<open>n_atoms\<close> 0 and an \<^verbatim>\<open>error\<close> entry, whatever the superimposer would do.
\<close>

theorem no_matching_atoms_degraded:
  assumes "get_structure predicted_pdb = Inr pred_structure"
    and "get_structure experimental_pdb = Inr exp_structure"
    and "min (length (extract_atoms atype pred_structure))
             (length (extract_atoms atype exp_structure)) = 0"
  shows "calculate_rmsd available get_structure superimposer predicted_pdb experimental_pdb atype
     = Inr \<lparr>rmsd = 0, n_atoms = 0, atom_type = None,
            error = Some (if available then ''No matching atoms'' else ''BioPython not available'')\<rparr>"
  using assms
  by (simp add: calculate_rmsd_def calculate_rmsd_try_def match_and_superimpose_def)

theorem no_matching_atoms_degraded_witness:
  "example_structures ''predicted.pdb'' = Inr [[[ala_residue, ala_residue]]]
   \<and> example_structures ''water.pdb'' = Inr [[[water_residue]]]
   \<and> min (length (extract_atoms ''CA'' [[[ala_residue, ala_residue]]]))
          (length (extract_atoms ''CA'' [[[water_residue]]])) = 0
   \<and> calculate_rmsd True example_structures failing_svd ''predicted.pdb'' ''water.pdb'' ''CA''
       = Inr \<lparr>rmsd = 0, n_atoms = 0, atom_type = None, error = Some ''No matching atoms''\<rparr>"
proof -
  have p: "example_structures ''predicted.pdb'' = Inr [[[ala_residue, ala_residue]]]"
    by (simp add: example_structures_def)
  have x: "example_structures ''water.pdb'' = Inr [[[water_residue]]]"
    by (simp add: example_structures_def)
  have z: "min (length (extract_atoms ''CA'' [[[ala_residue, ala_residue]]]))
          (length (extract_atoms ''CA'' [[[water_residue]]])) = 0"
    by (simp add: extract_atoms_def residue_atoms_def water_residue_def)
  show ?thesis
    using no_matching_atoms_degraded [OF p x z, of True failing_svd] p x z by simp
qed

text \<open>
  Claim C3, as stated: a parse failure and a numerical failure of the superimposer reach
  the caller as exceptions. The handler \<^verbatim>\<open>except Exception\<close> catches both: for a file
  that does not parse and for a superimposer that fails, the function returns a result
  value with the text of the exception in \<^verbatim>\<open>error\<close>.
\<close>

theorem library_errors_propagate_counterexample:
  "example_structures ''missing.pdb'' = Inl (LibException ''cannot parse'')
   \<and> calculate_rmsd True example_structures constant_rms ''missing.pdb'' ''experimental.pdb'' ''CA''
       = Inr \<lparr>rmsd = 0, n_atoms = 0, atom_type = None, error = Some ''cannot parse''\<rparr>
   \<and> failing_svd [ca_atom] [ca_atom] = Inl (LibException ''SVD did not converge'')
   \<and> calculate_rmsd True example_structures failing_svd ''predicted.pdb'' ''experimental.pdb'' ''CA''
       = Inr \<lparr>rmsd = 0, n_atoms = 0, atom_type = None, error = Some ''SVD did not converge''\<rparr>"
  by (simp add: example_structures_def calculate_rmsd_def calculate_rmsd_try_def
      match_and_superimpose_def extract_atoms_def residue_atoms_def ala_residue_def
      ca_atom_def cb_atom_def failing_svd_def)

text \<open>
  Claim C3, amended. An exception of the parser on either file, or of the superimposer
  on the matched atoms, is caught: \<^verbatim>\<open>calculate_rmsd\<close> returns the result with \<^verbatim>\<open>rmsd\<close>
  0.0, \<^verbatim>\<open>n_atoms\<close> 0 and \<^verbatim>\<open>error\<close> the text of the exception, and no exception of the
  library reaches the caller.
\<close>

theorem library_errors_returned_in_result:
  "(get_structure predicted_pdb = Inl e \<longrightarrow>
      calculate_rmsd True get_structure superimposer predicted_pdb experimental_pdb atype
        = Inr \<lparr>rmsd = 0, n_atoms = 0, atom_type = None, error = Some (str_of e)\<rparr>)
   \<and> (get_structure predicted_pdb = Inr pred_structure \<and> get_structure experimental_pdb = Inl e \<longrightarrow>
      calculate_rmsd True get_structure superimposer predicted_pdb experimental_pdb atype
        = Inr \<lparr>rmsd = 0, n_atoms = 0, atom_type = None, error = Some (str_of e)\<rparr>)
   \<and> (get_structure predicted_pdb = Inr pred_structure
        \<and> get_structure experimental_pdb = Inr exp_structure
        \<and> n = min (length (extract_atoms atype pred_structure))
                  (length (extract_atoms atype exp_structure))
        \<and> n \<noteq> 0
        \<and> superimposer (take n (extract_atoms atype exp_structure))
               (take n (extract_atoms atype pred_structure)) = Inl e \<longrightarrow>
      calculate_rmsd True get_structure superimposer predicted_pdb experimental_pdb atype
        = Inr \<lparr>rmsd = 0, n_atoms = 0, atom_type = None, error = Some (str_of e)\<rparr>)
   \<and> calculate_rmsd available get_structure superimposer predicted_pdb experimental_pdb atype \<noteq> Inl e'"
  by (auto simp: calculate_rmsd_def calculate_rmsd_try_def match_and_superimpose_def
      split: sum.splits)

theorem library_errors_returned_in_result_witness:
  "example_structures ''missing.pdb'' = Inl (LibException ''cannot parse'')
   \<and> calculate_rmsd True example_structures constant_rms ''missing.pdb'' ''experimental.pdb'' ''CA''
       = Inr \<lparr>rmsd = 0, n_atoms = 0, atom_type = None, error = Some ''cannot parse''\<rparr>
   \<and> calculate_rmsd True example_structures constant_rms ''predicted.pdb'' ''missing.pdb'' ''CA''
       = Inr \<lparr>rmsd = 0, n_atoms = 0, atom_type = None, error = Some ''cannot parse''\<rparr>
   \<and> calculate_rmsd True example_structures failing_svd ''predicted.pdb'' ''experimental.pdb'' ''CA''
       = Inr \<lparr>rmsd = 0, n_atoms = 0, atom_type = None, error = Some ''SVD did not converge''\<rparr>"
proof -
  have m: "example_structures ''missing.pdb'' = Inl (LibException ''cannot parse'')"
    by (simp add: example_structures_def)
  have p: "example_structures ''predicted.pdb'' = Inr [[[ala_residue, ala_residue]]]"
    by (simp add: example_structures_def)
  have x: "example_structures ''experimental.pdb'' = Inr [[[ala_residue]]]"
    by (simp add: example_structures_def)
  have n: "(1::nat) = min (length (extract_atoms ''CA'' [[[ala_residue, ala_residue]]]))
                  (length (extract_atoms ''CA'' [[[ala_residue]]]))"
    by (simp add: extract_atoms_def residue_atoms_def ala_residue_def ca_atom_def)
  have f: "failing_svd (take 1 (extract_atoms ''CA'' [[[ala_residue]]]))
               (take 1 (extract_atoms ''CA'' [[[ala_residue, ala_residue]]]))
           = Inl (LibException ''SVD did not converge'')"
    by (simp add: failing_svd_def)
  show ?thesis
    using m p x n f
      library_errors_returned_in_result [of example_structures "''missing.pdb''"
        "LibException ''cannot parse''" constant_rms "''experimental.pdb''" "''CA''"]
      library_errors_returned_in_result [of example_structures "''predicted.pdb''"
        "LibException ''cannot parse''" constant_rms "''missing.pdb''" "''CA''"
        "[[[ala_residue, ala_residue]]]"]
      library_errors_returned_in_result [of example_structures "''predicted.pdb''"
        "LibException ''SVD did not converge''" failing_svd "''experimental.pdb''" "''CA''"
        "[[[ala_residue, ala_residue]]]" "[[[ala_residue]]]" 1]
    by simp
qed

text \<open>
  Claim C9, as stated: an unavailable library is fatal. With the flag
  \<^verbatim>\<open>BIOPYTHON_AVAILABLE\<close> false, a call returns an ordinary result value.
\<close>

theorem unavailable_library_fatal_counterexample:
  "calculate_rmsd False example_structures constant_rms ''predicted.pdb'' ''experimental.pdb'' ''CA''
     = Inr \<lparr>rmsd = 0, n_atoms = 0, atom_type = None, error = Some ''BioPython not available''\<rparr>"
  by (simp add: calculate_rmsd_def)

text \<open>
  Claim C9, amended. With the library unavailable, every call of \<^verbatim>\<open>calculate_rmsd\<close>
  returns, before it parses or aligns anything (whatever the parser and the
  superimposer are), the result with \<^verbatim>\<open>rmsd\<close> 0.0, \<^verbatim>\<open>n_atoms\<close> 0 and the \<^verbatim>\<open>error\<close>
  \<^verbatim>\<open>BioPython not available\<close>; nothing is raised.
\<close>

theorem unavailable_library_degraded_result:
  "calculate_rmsd False get_structure superimposer predicted_pdb experimental_pdb atype
     = Inr \<lparr>rmsd = 0, n_atoms = 0, atom_type = None, error = Some ''BioPython not available''\<rparr>"
  by (simp add: calculate_rmsd_def)


section \<open>Properties of \<^verbatim>\<open>compare_interactions\<close>\<close>

lemma f1_of_nonneg: "0 \<le> p \<Longrightarrow> 0 \<le> r \<Longrightarrow> f1_of p r = (if p + r = 0 then 0 else 2 * p * r / (p + r))"
  by (auto simp: f1_of_def)

text \<open>
  Claim C5. The overall metrics: \<open>tp\<close>, \<open>fp\<close> and \<open>fn\<close> are the sizes of the intersection
  and of the two differences of the predicted and the experimental set; precision is
  \<open>tp\<close> over the size of the predicted set and 0 when that set is empty; recall is
  \<open>tp\<close> over the size of the experimental set and 0 when that set is empty; F1 is
  \<open>2 \<cdot> precision \<cdot> recall / (precision + recall)\<close> and 0 when that denominator is 0.
\<close>

theorem overall_metrics_formulas:
  "true_positives (overall (compare_interactions P E)) = card (set P \<inter> set E)
   \<and> false_positives (overall (compare_interactions P E)) = card (set P - set E)
   \<and> false_negatives (overall (compare_interactions P E)) = card (set E - set P)
   \<and> precision (overall (compare_interactions P E))
       = (if set P = {} then 0 else real (card (set P \<inter> set E)) / real (card (set P)))
   \<and> recall (overall (compare_interactions P E))
       = (if set E = {} then 0 else real (card (set P \<inter> set E)) / real (card (set E)))
   \<and> f1_score (overall (compare_interactions P E))
       = (if precision (overall (compare_interactions P E))
             + recall (overall (compare_interactions P E)) = 0 then 0
          else 2 * precision (overall (compare_interactions P E))
                 * recall (overall (compare_interactions P E))
               / (precision (overall (compare_interactions P E))
                  + recall (overall (compare_interactions P E))))"
proof -
  let ?p = "if set P \<noteq> {} then real (card (set P \<inter> set E)) / real (card (set P)) else 0"
  let ?r = "if set E \<noteq> {} then real (card (set P \<inter> set E)) / real (card (set E)) else 0"
  have "0 \<le> ?p" "0 \<le> ?r" by simp_all
  then have "f1_of ?p ?r = (if ?p + ?r = 0 then 0 else 2 * ?p * ?r / (?p + ?r))"
    by (rule f1_of_nonneg)
  then show ?thesis
    by (simp add: compare_interactions_def overall_of_def)
qed

lemma group_by_type_map_of:
  "map_of (group_by_type xs g) t =
     (if t \<in> itype_of ` set xs
      then Some ({i \<in> set xs. itype_of i = t} \<union> (case map_of g t of None \<Rightarrow> {} | Some s \<Rightarrow> s))
      else map_of g t)"
proof (induction xs arbitrary: g)
  case Nil
  then show ?case by simp
next
  case (Cons x xs)
  show ?case
    by (auto simp: Cons.IH update_conv' split: option.splits) (metis image_eqI)+
qed

lemma group_by_type_keys:
  "fst ` set (group_by_type xs g) = itype_of ` set xs \<union> fst ` set g"
  by (induction xs arbitrary: g) (auto simp: dom_update)

lemma get_group_group_by_type:
  "get_group (group_by_type xs []) t = {i \<in> set xs. itype_of i = t}"
  by (auto simp: get_group_def group_by_type_map_of)

lemma all_types_eq: "all_types P E = itype_of ` (set P \<union> set E)"
  using group_by_type_keys [of P "[]"] group_by_type_keys [of E "[]"]
  by (auto simp: all_types_def)

lemma dom_by_type: "dom (by_type (compare_interactions P E)) = all_types P E"
  by (auto simp: compare_interactions_def dom_def)

lemma sum_card_fibres:
  assumes "finite S" and "finite T" and "f ` S \<subseteq> T"
  shows "(\<Sum>t\<in>T. card {x \<in> S. f x = t}) = card S"
proof -
  have "(\<Sum>t\<in>T. \<Sum>x\<in>{x. x \<in> S \<and> f x = t}. (1::nat)) = (\<Sum>x\<in>S. 1)"
    using assms by (rule sum.group)
  then show ?thesis by simp
qed

text \<open>
  Claim C6. The keys of the returned \<^verbatim>\<open>by_type\<close> dictionary are exactly the types that
  occur in either list. For each of them the entry holds the metrics of the two lists
  restricted to that type: its \<open>tp\<close>, \<open>fp\<close> and \<open>fn\<close> count the tuples of that type in
  the intersection and in the two differences of the predicted and the experimental
  set. Summed over all types that occur in either list, the per-type \<open>tp\<close> values give
  the overall \<open>tp\<close>, the per-type \<open>fp\<close> values the overall \<open>fp\<close> and the per-type \<open>fn\<close>
  values the overall \<open>fn\<close>.
\<close>

theorem per_type_sums_equal_overall:
  "dom (by_type (compare_interactions P E)) = itype_of ` (set P \<union> set E)
   \<and> (t \<in> itype_of ` (set P \<union> set E) \<longrightarrow>
        by_type (compare_interactions P E) t
          = Some (metrics_of_type {i \<in> set P. itype_of i = t} {i \<in> set E. itype_of i = t})
        \<and> tp (the (by_type (compare_interactions P E) t))
            = card {i \<in> set P \<inter> set E. itype_of i = t}
        \<and> fp (the (by_type (compare_interactions P E) t))
            = card {i \<in> set P - set E. itype_of i = t}
        \<and> fn (the (by_type (compare_interactions P E) t))
            = card {i \<in> set E - set P. itype_of i = t})
   \<and> (\<Sum>t\<in>itype_of ` (set P \<union> set E). tp (the (by_type (compare_interactions P E) t)))
      = true_positives (overall (compare_interactions P E))
   \<and> (\<Sum>t\<in>itype_of ` (set P \<union> set E). fp (the (by_type (compare_interactions P E) t)))
      = false_positives (overall (compare_interactions P E))
   \<and> (\<Sum>t\<in>itype_of ` (set P \<union> set E). fn (the (by_type (compare_interactions P E) t)))
      = false_negatives (overall (compare_interactions P E))"
proof -
  let ?T = "itype_of ` (set P \<union> set E)"
  have fin: "finite ?T" by simp
  have s1: "itype_of ` (set P \<inter> set E) \<subseteq> ?T"
    and s2: "itype_of ` (set P - set E) \<subseteq> ?T"
    and s3: "itype_of ` (set E - set P) \<subseteq> ?T"
    by auto
  have ent: "\<And>t. t \<in> ?T \<Longrightarrow> by_type (compare_interactions P E) t
      = Some (metrics_of_type {i \<in> set P. itype_of i = t} {i \<in> set E. itype_of i = t})"
    by (simp add: compare_interactions_def get_group_group_by_type all_types_eq)
  have i: "\<And>t. {i \<in> set P. itype_of i = t} \<inter> {i \<in> set E. itype_of i = t}
      = {i \<in> set P \<inter> set E. itype_of i = t}" by auto
  have d1: "\<And>t. {i \<in> set P. itype_of i = t} - {i \<in> set E. itype_of i = t}
      = {i \<in> set P - set E. itype_of i = t}" by auto
  have d2: "\<And>t. {i \<in> set E. itype_of i = t} - {i \<in> set P. itype_of i = t}
      = {i \<in> set E - set P. itype_of i = t}" by auto
  have p1: "\<And>t. t \<in> ?T \<Longrightarrow> tp (the (by_type (compare_interactions P E) t))
      = card {i \<in> set P \<inter> set E. itype_of i = t}"
    by (simp add: ent metrics_of_type_def i)
  have p2: "\<And>t. t \<in> ?T \<Longrightarrow> fp (the (by_type (compare_interactions P E) t))
      = card {i \<in> set P - set E. itype_of i = t}"
    by (simp add: ent metrics_of_type_def d1)
  have p3: "\<And>t. t \<in> ?T \<Longrightarrow> fn (the (by_type (compare_interactions P E) t))
      = card {i \<in> set E - set P. itype_of i = t}"
    by (simp add: ent metrics_of_type_def d2)
  have t1: "(\<Sum>t\<in>?T. tp (the (by_type (compare_interactions P E) t))) = card (set P \<inter> set E)"
    using sum_card_fibres [OF _ fin s1] by (simp add: p1)
  have t2: "(\<Sum>t\<in>?T. fp (the (by_type (compare_interactions P E) t))) = card (set P - set E)"
    using sum_card_fibres [OF _ fin s2] by (simp add: p2)
  have t3: "(\<Sum>t\<in>?T. fn (the (by_type (compare_interactions P E) t))) = card (set E - set P)"
    using sum_card_fibres [OF _ fin s3] by (simp add: p3)
  have ov: "true_positives (overall (compare_interactions P E)) = card (set P \<inter> set E)"
    "false_positives (overall (compare_interactions P E)) = card (set P - set E)"
    "false_negatives (overall (compare_interactions P E)) = card (set E - set P)"
    by (simp_all add: compare_interactions_def overall_of_def)
  have dm: "dom (by_type (compare_interactions P E)) = ?T"
    by (simp add: dom_by_type all_types_eq)
  show ?thesis
    using dm ent p1 p2 p3 t1 t2 t3 ov by simp
qed

theorem per_type_sums_equal_overall_witness:
  "''vdw'' \<in> itype_of ` (set predicted_example \<union> set experimental_example)
   \<and> dom (by_type (compare_interactions predicted_example experimental_example))
       = {''hbond'', ''vdw'', ''ionic''}
   \<and> by_type (compare_interactions predicted_example experimental_example) ''vdw''
       = Some \<lparr>predicted = 2, experimental = 1, tp = 1, fp = 1, fn = 0,
               type_precision = 1 / 2, type_recall = 1, f1 = 2 / 3\<rparr>
   \<and> by_type (compare_interactions predicted_example experimental_example) ''hbond''
       = Some \<lparr>predicted = 1, experimental = 1, tp = 1, fp = 0, fn = 0,
               type_precision = 1, type_recall = 1, f1 = 1\<rparr>
   \<and> by_type (compare_interactions predicted_example experimental_example) ''ionic''
       = Some \<lparr>predicted = 0, experimental = 1, tp = 0, fp = 0, fn = 1,
               type_precision = 0, type_recall = 0, f1 = 0\<rparr>
   \<and> tp (the (by_type (compare_interactions predicted_example experimental_example) ''vdw''))
       = card {i \<in> set predicted_example \<inter> set experimental_example. itype_of i = ''vdw''}
   \<and> (\<Sum>t\<in>itype_of ` (set predicted_example \<union> set experimental_example).
         tp (the (by_type (compare_interactions predicted_example experimental_example) t)))
       = true_positives (overall (compare_interactions predicted_example experimental_example))
   \<and> true_positives (overall (compare_interactions predicted_example experimental_example)) = 2
   \<and> false_positives (overall (compare_interactions predicted_example experimental_example)) = 1
   \<and> false_negatives (overall (compare_interactions predicted_example experimental_example)) = 1"
proof -
  let ?c = "compare_interactions predicted_example experimental_example"
  note defs = predicted_example_def experimental_example_def compare_interactions_def
    all_types_def get_group_def metrics_of_type_def overall_of_def itype_of_def f1_of_def
  have m: "''vdw'' \<in> itype_of ` (set predicted_example \<union> set experimental_example)"
    by (simp add: predicted_example_def experimental_example_def itype_of_def)
  have k: "itype_of ` (set predicted_example \<union> set experimental_example)
      = {''hbond'', ''vdw'', ''ionic''}"
    by (auto simp: predicted_example_def experimental_example_def itype_of_def)
  have v: "by_type ?c ''vdw''
       = Some \<lparr>predicted = 2, experimental = 1, tp = 1, fp = 1, fn = 0,
               type_precision = 1 / 2, type_recall = 1, f1 = 2 / 3\<rparr>"
    by (simp add: defs)
  have h: "by_type ?c ''hbond''
       = Some \<lparr>predicted = 1, experimental = 1, tp = 1, fp = 0, fn = 0,
               type_precision = 1, type_recall = 1, f1 = 1\<rparr>"
    by (simp add: defs)
  have o: "by_type ?c ''ionic''
       = Some \<lparr>predicted = 0, experimental = 1, tp = 0, fp = 0, fn = 1,
               type_precision = 0, type_recall = 0, f1 = 0\<rparr>"
    by (simp add: defs)
  have ov: "true_positives (overall ?c) = 2" "false_positives (overall ?c) = 1"
    "false_negatives (overall ?c) = 1"
    by (simp_all add: defs)
  note t = per_type_sums_equal_overall [of predicted_example experimental_example "''vdw''"]
  have d: "dom (by_type ?c) = {''hbond'', ''vdw'', ''ionic''}"
    using t k by simp
  have c: "tp (the (by_type ?c ''vdw''))
       = card {i \<in> set predicted_example \<inter> set experimental_example. itype_of i = ''vdw''}"
    using t m by blast
  have s: "(\<Sum>t\<in>itype_of ` (set predicted_example \<union> set experimental_example).
         tp (the (by_type ?c t))) = true_positives (overall ?c)"
    using t by blast
  show ?thesis
    using m d v h o c s ov by (intro conjI)
qed

section \<open>Properties of the per-type table\<close>

text \<open>
  Claim C7, as stated: rows of equal predicted count are in ascending order of type
  name. For a dictionary that holds \<^verbatim>\<open>vdw\<close> before \<^verbatim>\<open>hbond\<close>, both with predicted count
  1, the table keeps \<^verbatim>\<open>vdw\<close> first.
\<close>

theorem type_rows_tie_break_counterexample:
  "report_type_rows tied_rows = tied_rows
   \<and> \<not> sorted_wrt spec_row_order (report_type_rows tied_rows)"
  by (simp add: report_type_rows_def py_sorted_reverse_def tied_rows_def spec_row_order_def)

text \<open>
  Claim C7, amended. The rows are in descending order of predicted count, they are the
  entries of the dictionary, and rows of equal predicted count keep the order they have
  in the dictionary.
\<close>

theorem type_rows_sorted_stable:
  "sorted_wrt (\<lambda>a b. predicted (snd b) \<le> predicted (snd a)) (report_type_rows by_type_items)
   \<and> set (report_type_rows by_type_items) = set by_type_items
   \<and> length (report_type_rows by_type_items) = length by_type_items
   \<and> filter (\<lambda>x. predicted (snd x) = k) (report_type_rows by_type_items)
       = filter (\<lambda>x. predicted (snd x) = k) by_type_items"
proof -
  let ?key = "\<lambda>x::string \<times> type_metrics. predicted (snd x)"
  have "sorted (map ?key (sort_key ?key (rev by_type_items)))"
    by (rule sorted_sort_key)
  then have s: "sorted_wrt (\<lambda>a b. ?key a \<le> ?key b) (sort_key ?key (rev by_type_items))"
    by (simp add: sorted_map)
  have "filter (\<lambda>x. ?key x = k) (sort_key ?key (rev by_type_items))
      = filter (\<lambda>x. ?key x = k) (rev by_type_items)"
    by (rule sort_key_stable)
  then have f: "filter (\<lambda>x. ?key x = k) (rev (sort_key ?key (rev by_type_items)))
      = filter (\<lambda>x. ?key x = k) by_type_items"
    by (simp add: rev_filter [symmetric])
  show ?thesis
    using s f by (simp add: report_type_rows_def py_sorted_reverse_def sorted_wrt_rev)
qed


section \<open>Properties of \<^verbatim>\<open>analyze_interactions\<close>\<close>













end
